theory Spec2Isabelle
  imports Complex_Main "HOL-Library.Sublist"
begin

section \<open>Python values\<close>

text \<open>
  A Python \<open>str\<close> is a sequence of Unicode code points and \<open>len\<close> counts code
  points, so a string is modelled as the list of its code points. Most literals of the
  source are Korean; they are written out as code-point lists, with an English gloss.
  ASCII literals are written with \<open>ascii\<close>.
\<close>

type_synonym pystr = "nat list"

definition ascii :: "string \<Rightarrow> pystr" where
  "ascii s = map of_char s"

text \<open>\<open>d.get(key, default)\<close> on an argument that may be absent.\<close>

definition get_or :: "'a option \<Rightarrow> 'a \<Rightarrow> 'a" where
  "get_or v d = (case v of None \<Rightarrow> d | Some x \<Rightarrow> x)"

text \<open>
  A \<open>dict\<close> keeps insertion order, so it is an association list; \<open>dict_get\<close> is
  \<open>d.get(key, default)\<close> and \<open>dict_keys\<close> is \<open>list(d.keys())\<close>.
\<close>

definition dict_get :: "('k \<times> 'v) list \<Rightarrow> 'k \<Rightarrow> 'v \<Rightarrow> 'v" where
  "dict_get d k dflt = (case map_of d k of None \<Rightarrow> dflt | Some v \<Rightarrow> v)"

definition dict_keys :: "('k \<times> 'v) list \<Rightarrow> 'k list" where
  "dict_keys d = map fst d"

text \<open>The values \<open>json.load\<close> produces and \<open>json.dumps\<close> consumes (\<open>Any\<close> in the source).\<close>

datatype json =
    JNull
  | JBool bool
  | JInt int
  | JFloat real
  | JStr pystr
  | JList "json list"
  | JObj "(pystr \<times> json) list"

text \<open>
  \<open>sub in s\<close> on strings: \<open>sub\<close> occurs in \<open>s\<close> as a contiguous block.
\<close>

fun str_contains :: "pystr \<Rightarrow> pystr \<Rightarrow> bool" where
  "str_contains sub [] = (sub = [])"
| "str_contains sub (c # cs) = (prefix sub (c # cs) \<or> str_contains sub cs)"


section \<open>models/enums.py\<close>

datatype BizType = INDIVIDUAL_BIZ | NON_BIZ | CORP

fun BizType_value :: "BizType \<Rightarrow> pystr" where
  "BizType_value INDIVIDUAL_BIZ = ascii ''individual_biz''"
| "BizType_value NON_BIZ = ascii ''non_biz''"
| "BizType_value CORP = ascii ''corp''"

definition BizType_members :: "BizType list" where
  "BizType_members = [INDIVIDUAL_BIZ, NON_BIZ, CORP]"

text \<open>\<open>BizType(s)\<close>: the member with that value; \<open>None\<close> stands for the ValueError.\<close>

definition BizType_of_value :: "pystr \<Rightarrow> BizType option" where
  "BizType_of_value s = find (\<lambda>e. BizType_value e = s) BizType_members"

datatype ErrorType =
    NO_TAX_RETURN | NO_BIZ | CALC_ERROR | ALREADY_REFUNDED | NOT_COMPLETE | NO_CONT_BIZ
  | AUTH_EXPIRED | AUTH_NOT_COMPLETE | LOGIN_FAILED | SESSION_EXPIRED | INVALID_SSN

fun ErrorType_value :: "ErrorType \<Rightarrow> pystr" where
  \<comment> \<open>no income-tax return on record\<close>
  "ErrorType_value NO_TAX_RETURN =
     [51333, 49548, 49464, 49888, 44256, 45236, 50669, 50630, 51020]"
  \<comment> \<open>no-business error\<close>
| "ErrorType_value NO_BIZ =
     [49324, 50629, 51088, 50630, 51020, 50724, 47448]"
  \<comment> \<open>calculation error\<close>
| "ErrorType_value CALC_ERROR =
     [44228, 49328, 50724, 47448]"
  \<comment> \<open>already refunded\<close>
| "ErrorType_value ALREADY_REFUNDED =
     [44592, 54872, 44553, 51088]"
  \<comment> \<open>not complete\<close>
| "ErrorType_value NOT_COMPLETE =
     [48120, 50756, 47308]"
  \<comment> \<open>no continuing business\<close>
| "ErrorType_value NO_CONT_BIZ =
     [44228, 49549, 49324, 50629, 51088, 50630, 51020]"
  \<comment> \<open>simple-auth token expired\<close>
| "ErrorType_value AUTH_EXPIRED =
     [44036, 54200, 51064, 51613, 53664, 53360, 47564, 47308]"
  \<comment> \<open>simple-auth not completed\<close>
| "ErrorType_value AUTH_NOT_COMPLETE =
     [44036, 54200, 51064, 51613, 48120, 50756, 47308]"
  \<comment> \<open>Hometax login failed\<close>
| "ErrorType_value LOGIN_FAILED =
     [54856, 53469, 49828, 47196, 44536, 51064, 49892, 54056]"
  \<comment> \<open>session expired\<close>
| "ErrorType_value SESSION_EXPIRED =
     [49464, 49496, 47564, 47308]"
  \<comment> \<open>resident-number error\<close>
| "ErrorType_value INVALID_SSN =
     [51452, 48124, 48264, 54840, 50724, 47448]"

text \<open>Iteration order of \<open>for e in ErrorType\<close>: the order of definition.\<close>

definition ErrorType_members :: "ErrorType list" where
  "ErrorType_members =
     [NO_TAX_RETURN, NO_BIZ, CALC_ERROR, ALREADY_REFUNDED, NOT_COMPLETE, NO_CONT_BIZ,
      AUTH_EXPIRED, AUTH_NOT_COMPLETE, LOGIN_FAILED, SESSION_EXPIRED, INVALID_SSN]"

text \<open>\<open>ErrorType(s)\<close>: the member with that value; \<open>None\<close> stands for the ValueError.\<close>

definition ErrorType_of_value :: "pystr \<Rightarrow> ErrorType option" where
  "ErrorType_of_value s = find (\<lambda>e. ErrorType_value e = s) ErrorType_members"

datatype ActionType = CERT_REQUEST | CERT_RESPONSE | CHECK | LOAD | CALC

fun ActionType_value :: "ActionType \<Rightarrow> pystr" where
  "ActionType_value CERT_REQUEST = ascii ''cert_request''"
| "ActionType_value CERT_RESPONSE = ascii ''cert_response''"
| "ActionType_value CHECK = ascii ''check''"
| "ActionType_value LOAD = ascii ''load''"
| "ActionType_value CALC = ascii ''calc''"

definition ERROR_MESSAGES :: "(ErrorType \<times> pystr) list" where
  "ERROR_MESSAGES =
   [(NO_TAX_RETURN, \<comment> \<open>There is no comprehensive income tax return on record.\<close>
     [51333, 54633, 49548, 46301, 49464, 32, 49888, 44256, 32, 45236, 50669, 51060, 32, 50630,
      49845, 45768, 45796, 46]),
    (NO_BIZ, \<comment> \<open>There is no business registration information.\<close>
     [49324, 50629, 51088, 32, 46321, 47197, 32, 51221, 48372, 44032, 32, 50630, 49845, 45768,
      45796, 46]),
    (CALC_ERROR, \<comment> \<open>An error occurred while calculating the refund.\<close>
     [54872, 44553, 50529, 32, 44228, 49328, 32, 51473, 32, 50724, 47448, 44032, 32, 48156,
      49373, 54664, 49845, 45768, 45796, 46]),
    (ALREADY_REFUNDED, \<comment> \<open>The refund has already been processed.\<close>
     [51060, 48120, 32, 54872, 44553, 32, 52376, 47532, 44032, 32, 50756, 47308, 46108, 32,
      44148, 51077, 45768, 45796, 46]),
    (NOT_COMPLETE, \<comment> \<open>Processing has not been completed.\<close>
     [52376, 47532, 44032, 32, 50756, 47308, 46104, 51648, 32, 50506, 50520, 49845, 45768, 45796,
      46]),
    (NO_CONT_BIZ, \<comment> \<open>There is no continuing-business information.\<close>
     [44228, 49549, 49324, 50629, 51088, 32, 51221, 48372, 44032, 32, 50630, 49845, 45768, 45796,
      46]),
    (AUTH_EXPIRED, \<comment> \<open>The simple-auth token has expired.\<close>
     [44036, 54200, 51064, 51613, 32, 53664, 53360, 51060, 32, 47564, 47308, 46104, 50632, 49845,
      45768, 45796, 46]),
    (AUTH_NOT_COMPLETE, \<comment> \<open>Simple auth has not been completed.\<close>
     [44036, 54200, 51064, 51613, 51060, 32, 50756, 47308, 46104, 51648, 32, 50506, 50520, 49845,
      45768, 45796, 46]),
    (LOGIN_FAILED, \<comment> \<open>Hometax login failed.\<close>
     [54856, 53469, 49828, 32, 47196, 44536, 51064, 50640, 32, 49892, 54056, 54664, 49845, 45768,
      45796, 46]),
    (SESSION_EXPIRED, \<comment> \<open>The session has expired.\<close>
     [49464, 49496, 51060, 32, 47564, 47308, 46104, 50632, 49845, 45768, 45796, 46]),
    (INVALID_SSN, \<comment> \<open>The resident registration number is not valid.\<close>
     [51452, 48124, 46321, 47197, 48264, 54840, 44032, 32, 50732, 48148, 47476, 51648, 32, 50506,
      49845, 45768, 45796, 46])]"

definition ERROR_DEFAULT_ACTION :: "(ErrorType \<times> ActionType) list" where
  "ERROR_DEFAULT_ACTION =
   [(NO_TAX_RETURN, LOAD),
    (NO_BIZ, LOAD),
    (CALC_ERROR, LOAD),
    (ALREADY_REFUNDED, LOAD),
    (NOT_COMPLETE, LOAD),
    (NO_CONT_BIZ, LOAD),
    (AUTH_EXPIRED, CERT_RESPONSE),
    (AUTH_NOT_COMPLETE, CERT_RESPONSE),
    (LOGIN_FAILED, CHECK),
    (SESSION_EXPIRED, CHECK),
    (INVALID_SSN, CHECK)]"


section \<open>models/scenario.py\<close>

text \<open>
  Modelled from the spec: the module \<open>models/scenario.py\<close> (the entity classes with
  their defaults) is not among the sources; the records follow section 3 of the
  specification, the constructor calls in \<open>server.py\<close> and the assertions of
  \<open>tests/test_server.py\<close>. The default user name is the one the test asserts.
\<close>

definition default_user_name :: pystr where
  \<comment> \<open>test user\<close>
  "default_user_name =
     [53580, 49828, 53944, 49324, 50857, 51088]"

text \<open>Modelled from the spec: UserInfo (name, optional phone, optional birthday).\<close>

record UserInfo =
  name :: pystr
  phone :: "pystr option"
  birthday :: "pystr option"

text \<open>Modelled from the spec: \<open>UserInfo()\<close>, every field at its default.\<close>

definition UserInfo_default :: UserInfo where
  "UserInfo_default = \<lparr>name = default_user_name, phone = None, birthday = None\<rparr>"

text \<open>
  Modelled from the spec: TaxpayerInfo. Only \<open>tin\<close> is named by the specification;
  the further business-registration attributes it mentions are not listed and are left out.
\<close>

record TaxpayerInfo =
  tin :: "pystr option"

text \<open>Modelled from the spec: \<open>TaxpayerInfo()\<close>, every field at its default.\<close>

definition TaxpayerInfo_default :: TaxpayerInfo where
  "TaxpayerInfo_default = \<lparr>tin = None\<rparr>"

text \<open>
  Modelled from the spec: RefundResult, the total and the three category amounts that
  \<open>handle_scenario_build_normal\<close> passes (their Korean field names are romanised:
  startup reduction, employment increase, social insurance premium).
\<close>

record RefundResult =
  total_refund :: int
  changjunggam_refund :: int
  goyongjeungdae_refund :: int
  sahoeboheomryo_refund :: int

text \<open>Modelled from the spec: \<open>RefundResult()\<close>, every field at its default.\<close>

definition RefundResult_default :: RefundResult where
  "RefundResult_default =
     \<lparr>total_refund = 0, changjunggam_refund = 0, goyongjeungdae_refund = 0,
      sahoeboheomryo_refund = 0\<rparr>"

text \<open>Modelled from the spec: ActionConfig, the outcome of one stage.\<close>

record ActionConfig =
  success :: bool
  error_type :: "pystr option"
  error_msg :: "pystr option"

text \<open>Modelled from the spec: \<open>ActionConfig()\<close>, every field at its default.\<close>

definition ActionConfig_default :: ActionConfig where
  "ActionConfig_default = \<lparr>success = True, error_type = None, error_msg = None\<rparr>"

text \<open>
  Modelled from the spec: ProgressStep. The delay is a number that is stored and
  compared only, never computed with.
\<close>

record ProgressStep =
  step_name :: pystr
  progress :: pystr
  delay_seconds :: real

text \<open>
  Modelled from the spec: ProgressConfig. The specification gives no default for
  \<open>queue_name\<close>; the empty string stands for it.
\<close>

record ProgressConfig =
  enabled :: bool
  queue_name :: pystr
  steps :: "ProgressStep list"

text \<open>Modelled from the spec: \<open>ProgressConfig()\<close>, every field at its default.\<close>

definition ProgressConfig_default :: ProgressConfig where
  "ProgressConfig_default = \<lparr>enabled = False, queue_name = [], steps = []\<rparr>"

text \<open>
  Modelled from the spec: ScenarioConfig, the aggregate. The specification gives no
  default for \<open>scenario_name\<close> and \<open>description\<close>; the empty string stands for them.
\<close>

record ScenarioConfig =
  scenario_name :: pystr
  description :: pystr
  user_info :: UserInfo
  taxpayer_info :: TaxpayerInfo
  biz_type :: BizType
  refund_result :: RefundResult
  cert_request_config :: ActionConfig
  cert_response_config :: ActionConfig
  check_config :: ActionConfig
  load_config :: ActionConfig
  progress_config :: ProgressConfig

text \<open>Modelled from the spec: \<open>ScenarioConfig()\<close>, every field at its default.\<close>

definition ScenarioConfig_default :: ScenarioConfig where
  "ScenarioConfig_default =
     \<lparr>scenario_name = [], description = [],
      user_info = UserInfo_default, taxpayer_info = TaxpayerInfo_default,
      biz_type = INDIVIDUAL_BIZ, refund_result = RefundResult_default,
      cert_request_config = ActionConfig_default,
      cert_response_config = ActionConfig_default,
      check_config = ActionConfig_default,
      load_config = ActionConfig_default,
      progress_config = ProgressConfig_default\<rparr>"

text \<open>
  The slot of a scenario that belongs to a stage. The calculation stage has no slot.
\<close>

fun stage_slot :: "ActionType \<Rightarrow> ScenarioConfig \<Rightarrow> ActionConfig option" where
  "stage_slot CERT_REQUEST s = Some (cert_request_config s)"
| "stage_slot CERT_RESPONSE s = Some (cert_response_config s)"
| "stage_slot CHECK s = Some (check_config s)"
| "stage_slot LOAD s = Some (load_config s)"
| "stage_slot CALC s = None"


section \<open>server.py: the error builder\<close>

text \<open>
  The arguments of a tool call are a \<open>dict\<close> typed by the tool's \<open>inputSchema\<close>; a key
  that the caller left out is \<open>None\<close>. Every handler ends by rendering its result with
  \<open>json.dumps\<close>; the model returns the value that is rendered.
\<close>

record build_error_args =
  be_user_name :: "pystr option"
  be_error_type :: "pystr option"
  be_error_msg :: "pystr option"
  be_action :: "pystr option"

text \<open>The reply \<open>{"error": ..., "available_types": [...]}\<close>.\<close>

datatype build_error_failure = UnknownErrorKind pystr "pystr list"

definition unknown_error_msg :: pystr where
  \<comment> \<open>An unknown error occurred.\<close>
  "unknown_error_msg =
     [50508, 32, 49688, 32, 50630, 45716, 32, 50724, 47448, 44032, 32, 48156, 49373, 54664,
      49845, 45768, 45796, 46]"

definition error_name_prefix :: pystr where
  \<comment> \<open>error_\<close>
  "error_name_prefix = [50640, 47084, 95]"

definition possessive_particle :: pystr where
  \<comment> \<open>the particle "of" and a space\<close>
  "possessive_particle = [51032, 32]"

definition error_description_suffix :: pystr where
  \<comment> \<open>a space and "error scenario"\<close>
  "error_description_suffix =
     [32, 50640, 47084, 32, 49884, 45208, 47532, 50724]"

text \<open>\<open>if not error_msg: error_msg = ERROR_MESSAGES.get(error_type, ...)\<close>\<close>

definition resolve_error_msg :: "ErrorType \<Rightarrow> pystr \<Rightarrow> pystr" where
  "resolve_error_msg et msg =
     (if msg = [] then dict_get ERROR_MESSAGES et unknown_error_msg else msg)"

text \<open>
  \<open>if not action_str: action_str = ERROR_DEFAULT_ACTION.get(error_type, ActionType.LOAD).value\<close>
\<close>

definition resolve_action_str :: "ErrorType \<Rightarrow> pystr \<Rightarrow> pystr" where
  "resolve_action_str et action_str =
     (if action_str = [] then ActionType_value (dict_get ERROR_DEFAULT_ACTION et LOAD)
      else action_str)"

text \<open>The \<open>if\<close>/\<open>elif\<close> chain that writes the failing outcome into one slot.\<close>

definition set_error_config :: "pystr \<Rightarrow> ActionConfig \<Rightarrow> ScenarioConfig \<Rightarrow> ScenarioConfig" where
  "set_error_config action_str error_config scenario =
     (if action_str = ascii ''cert_request'' then
        scenario\<lparr>cert_request_config := error_config\<rparr>
      else if action_str = ascii ''cert_response'' then
        scenario\<lparr>cert_response_config := error_config\<rparr>
      else if action_str = ascii ''check'' then
        scenario\<lparr>check_config := error_config\<rparr>
      else
        scenario\<lparr>load_config := error_config\<rparr>)"

definition handle_scenario_build_error ::
    "build_error_args \<Rightarrow> build_error_failure + ScenarioConfig" where
  "handle_scenario_build_error arguments =
     (let user_name = get_or (be_user_name arguments) default_user_name;
          error_type_str = get_or (be_error_type arguments) [];
          msg = get_or (be_error_msg arguments) [];
          action_str = get_or (be_action arguments) []
      in case ErrorType_of_value error_type_str of
           None \<Rightarrow>
             Inl (UnknownErrorKind (ascii ''Unknown error type: '' @ error_type_str)
                    (map ErrorType_value ErrorType_members))
         | Some et \<Rightarrow>
             (let msg = resolve_error_msg et msg;
                  action_str = resolve_action_str et action_str;
                  scenario = ScenarioConfig_default
                    \<lparr>scenario_name :=
                       error_name_prefix @ ErrorType_value et @ ascii ''_'' @ user_name,
                     description :=
                       user_name @ possessive_particle @ ErrorType_value et
                         @ error_description_suffix,
                     user_info := UserInfo_default\<lparr>name := user_name\<rparr>\<rparr>;
                  error_config =
                    \<lparr>success = False, error_type = Some (ErrorType_value et),
                     error_msg = Some msg\<rparr>
              in Inr (set_error_config action_str error_config scenario)))"


section \<open>server.py: the progress builder\<close>

text \<open>One element of the \<open>steps\<close> argument: an object whose keys may be absent.\<close>

record step_args =
  sa_step_name :: "pystr option"
  sa_progress :: "pystr option"
  sa_delay_seconds :: "real option"

record build_progress_args =
  bp_user_name :: "pystr option"
  bp_total_refund :: "int option"
  bp_queue_name :: "pystr option"
  bp_steps :: "step_args list option"

definition step_login :: pystr where
  \<comment> \<open>Hometax login\<close>
  "step_login = [54856, 53469, 49828, 32, 47196, 44536, 51064]"

definition step_history :: pystr where
  \<comment> \<open>look up the filing history\<close>
  "step_history = [49888, 44256, 45236, 50669, 32, 51312, 54924]"

definition step_calculation :: pystr where
  \<comment> \<open>calculate the refund\<close>
  "step_calculation = [54872, 44553, 50529, 32, 44228, 49328]"

definition step_result :: pystr where
  \<comment> \<open>generate the result\<close>
  "step_result = [44208, 44284, 32, 49373, 49457]"

definition default_steps_data :: "step_args list" where
  "default_steps_data =
     [\<lparr>sa_step_name = Some step_login, sa_progress = Some (ascii ''10%''),
        sa_delay_seconds = Some 0.5\<rparr>,
      \<lparr>sa_step_name = Some step_history, sa_progress = Some (ascii ''30%''),
        sa_delay_seconds = Some 1.0\<rparr>,
      \<lparr>sa_step_name = Some step_calculation, sa_progress = Some (ascii ''60%''),
        sa_delay_seconds = Some 1.5\<rparr>,
      \<lparr>sa_step_name = Some step_result, sa_progress = Some (ascii ''90%''),
        sa_delay_seconds = Some 0.5\<rparr>]"

definition progress_name_prefix :: pystr where
  \<comment> \<open>progress test_\<close>
  "progress_name_prefix =
     [51652, 54665, 47456, 53580, 49828, 53944, 95]"

definition progress_description_suffix :: pystr where
  \<comment> \<open>'s progress sending test scenario\<close>
  "progress_description_suffix =
     [51032, 32, 51652, 54665, 47456, 32, 51204, 49569, 32, 53580, 49828, 53944, 32, 49884,
      45208, 47532, 50724]"

text \<open>The body of the list comprehension over \<open>steps_data\<close>.\<close>

definition make_step :: "step_args \<Rightarrow> ProgressStep" where
  "make_step s =
     \<lparr>step_name = get_or (sa_step_name s) [],
      progress = get_or (sa_progress s) (ascii ''0%''),
      delay_seconds = get_or (sa_delay_seconds s) 0.5\<rparr>"

definition handle_scenario_build_progress :: "build_progress_args \<Rightarrow> ScenarioConfig" where
  "handle_scenario_build_progress arguments =
     (let user_name = get_or (bp_user_name arguments) default_user_name;
          amount = get_or (bp_total_refund arguments) 0;
          queue = get_or (bp_queue_name arguments) (ascii ''refund-search.fifo'');
          steps_data = get_or (bp_steps arguments) [];
          steps_data = (if steps_data = [] then default_steps_data else steps_data);
          step_list = map make_step steps_data
      in ScenarioConfig_default
           \<lparr>scenario_name := progress_name_prefix @ user_name,
            description := user_name @ progress_description_suffix,
            user_info := UserInfo_default\<lparr>name := user_name\<rparr>,
            refund_result := RefundResult_default\<lparr>total_refund := amount\<rparr>,
            progress_config :=
              \<lparr>enabled = True, queue_name = queue, steps = step_list\<rparr>\<rparr>)"


section \<open>Serialization\<close>

text \<open>
  Modelled from the spec: \<open>ScenarioConfig.to_dict\<close> and \<open>ScenarioConfig.from_dict\<close>
  live in \<open>models/scenario.py\<close>, which is not among the sources. Section 4.2 of the
  specification is followed: \<open>to_dict\<close> emits every field under its name, an unset
  optional as null, a nested entity as its own object and an enumeration as its string
  value; \<open>from_dict\<close> takes the default of a field whose key is absent and otherwise
  coerces the value to the declared type, failing with a ParseError when that is not
  possible. A ParseError carries a description; the model uses the name of the
  offending key.
\<close>

datatype ParseError = ParseError pystr

text \<open>Modelled from the spec: \<open>str(e)\<close> of a ParseError.\<close>

definition parse_description :: "ParseError \<Rightarrow> pystr" where
  "parse_description e = (case e of ParseError d \<Rightarrow> d)"

text \<open>Modelled from the spec: sequencing of coercions, the first failure wins.\<close>

definition bind_parse :: "ParseError + 'a \<Rightarrow> ('a \<Rightarrow> ParseError + 'b) \<Rightarrow> ParseError + 'b" where
  "bind_parse r f = (case r of Inl e \<Rightarrow> Inl e | Inr x \<Rightarrow> f x)"

text \<open>Modelled from the spec: coercion of every element of a list, the first failure wins.\<close>

fun parse_all :: "('a \<Rightarrow> ParseError + 'b) \<Rightarrow> 'a list \<Rightarrow> ParseError + 'b list" where
  "parse_all f [] = Inr []"
| "parse_all f (x # xs) =
     bind_parse (f x) (\<lambda>y. bind_parse (parse_all f xs) (\<lambda>ys. Inr (y # ys)))"

text \<open>Modelled from the spec: a string field with a default.\<close>

definition field_str :: "(pystr \<times> json) list \<Rightarrow> pystr \<Rightarrow> pystr \<Rightarrow> ParseError + pystr" where
  "field_str d k dflt =
     (case map_of d k of
        None \<Rightarrow> Inr dflt
      | Some (JStr s) \<Rightarrow> Inr s
      | Some _ \<Rightarrow> Inl (ParseError k))"

text \<open>Modelled from the spec: a string field for which the specification documents no default.\<close>

definition field_str_required :: "(pystr \<times> json) list \<Rightarrow> pystr \<Rightarrow> ParseError + pystr" where
  "field_str_required d k =
     (case map_of d k of
        Some (JStr s) \<Rightarrow> Inr s
      | _ \<Rightarrow> Inl (ParseError k))"

text \<open>Modelled from the spec: an optional string field; null and an absent key both give \<open>None\<close>.\<close>

definition field_opt_str :: "(pystr \<times> json) list \<Rightarrow> pystr \<Rightarrow> ParseError + pystr option" where
  "field_opt_str d k =
     (case map_of d k of
        None \<Rightarrow> Inr None
      | Some JNull \<Rightarrow> Inr None
      | Some (JStr s) \<Rightarrow> Inr (Some s)
      | Some _ \<Rightarrow> Inl (ParseError k))"

text \<open>Modelled from the spec: an integer field with a default.\<close>

definition field_int :: "(pystr \<times> json) list \<Rightarrow> pystr \<Rightarrow> int \<Rightarrow> ParseError + int" where
  "field_int d k dflt =
     (case map_of d k of
        None \<Rightarrow> Inr dflt
      | Some (JInt i) \<Rightarrow> Inr i
      | Some _ \<Rightarrow> Inl (ParseError k))"

text \<open>Modelled from the spec: a boolean field with a default.\<close>

definition field_bool :: "(pystr \<times> json) list \<Rightarrow> pystr \<Rightarrow> bool \<Rightarrow> ParseError + bool" where
  "field_bool d k dflt =
     (case map_of d k of
        None \<Rightarrow> Inr dflt
      | Some (JBool b) \<Rightarrow> Inr b
      | Some _ \<Rightarrow> Inl (ParseError k))"

text \<open>Modelled from the spec: a number: a JSON integer is accepted where a float is declared.\<close>

definition field_number :: "(pystr \<times> json) list \<Rightarrow> pystr \<Rightarrow> real \<Rightarrow> ParseError + real" where
  "field_number d k dflt =
     (case map_of d k of
        None \<Rightarrow> Inr dflt
      | Some (JFloat r) \<Rightarrow> Inr r
      | Some (JInt i) \<Rightarrow> Inr (of_int i)
      | Some _ \<Rightarrow> Inl (ParseError k))"

text \<open>Modelled from the spec: a nested entity: an absent key gives the empty object, hence all its defaults.\<close>

definition field_obj ::
    "(pystr \<times> json) list \<Rightarrow> pystr \<Rightarrow> ParseError + (pystr \<times> json) list" where
  "field_obj d k =
     (case map_of d k of
        None \<Rightarrow> Inr []
      | Some (JObj ob) \<Rightarrow> Inr ob
      | Some _ \<Rightarrow> Inl (ParseError k))"

text \<open>Modelled from the spec: a list field, empty by default.\<close>

definition field_list :: "(pystr \<times> json) list \<Rightarrow> pystr \<Rightarrow> ParseError + json list" where
  "field_list d k =
     (case map_of d k of
        None \<Rightarrow> Inr []
      | Some (JList xs) \<Rightarrow> Inr xs
      | Some _ \<Rightarrow> Inl (ParseError k))"

text \<open>Modelled from the spec: an optional string is emitted as the string or as null.\<close>

definition opt_str_json :: "pystr option \<Rightarrow> json" where
  "opt_str_json v = (case v of None \<Rightarrow> JNull | Some s \<Rightarrow> JStr s)"

text \<open>Modelled from the spec: a key of the representation of RefundResult.\<close>

definition key_changjunggam :: pystr where
  \<comment> \<open>the field name of the startup-reduction refund amount\<close>
  "key_changjunggam =
     [52285, 51473, 44048, 95, 54872, 44553, 50529]"

text \<open>Modelled from the spec: a key of the representation of RefundResult.\<close>

definition key_goyongjeungdae :: pystr where
  \<comment> \<open>the field name of the employment-increase refund amount\<close>
  "key_goyongjeungdae =
     [44256, 50857, 51613, 45824, 95, 54872, 44553, 50529]"

text \<open>Modelled from the spec: a key of the representation of RefundResult.\<close>

definition key_sahoeboheomryo :: pystr where
  \<comment> \<open>the field name of the social-insurance-premium refund amount\<close>
  "key_sahoeboheomryo =
     [49324, 54924, 48372, 54744, 47308, 95, 54872, 44553, 50529]"

text \<open>Modelled from the spec: \<open>UserInfo.to_dict\<close>.\<close>

definition UserInfo_to_dict :: "UserInfo \<Rightarrow> (pystr \<times> json) list" where
  "UserInfo_to_dict u =
     [(ascii ''name'', JStr (name u)),
      (ascii ''phone'', opt_str_json (phone u)),
      (ascii ''birthday'', opt_str_json (birthday u))]"

text \<open>Modelled from the spec: \<open>UserInfo.from_dict\<close>.\<close>

definition UserInfo_from_dict :: "(pystr \<times> json) list \<Rightarrow> ParseError + UserInfo" where
  "UserInfo_from_dict d =
     bind_parse (field_str d (ascii ''name'') default_user_name) (\<lambda>n.
     bind_parse (field_opt_str d (ascii ''phone'')) (\<lambda>p.
     bind_parse (field_opt_str d (ascii ''birthday'')) (\<lambda>b.
     Inr \<lparr>name = n, phone = p, birthday = b\<rparr>)))"

text \<open>Modelled from the spec: \<open>TaxpayerInfo.to_dict\<close>.\<close>

definition TaxpayerInfo_to_dict :: "TaxpayerInfo \<Rightarrow> (pystr \<times> json) list" where
  "TaxpayerInfo_to_dict t = [(ascii ''tin'', opt_str_json (tin t))]"

text \<open>Modelled from the spec: \<open>TaxpayerInfo.from_dict\<close>.\<close>

definition TaxpayerInfo_from_dict :: "(pystr \<times> json) list \<Rightarrow> ParseError + TaxpayerInfo" where
  "TaxpayerInfo_from_dict d =
     bind_parse (field_opt_str d (ascii ''tin'')) (\<lambda>t. Inr \<lparr>tin = t\<rparr>)"

text \<open>Modelled from the spec: \<open>RefundResult.to_dict\<close>.\<close>

definition RefundResult_to_dict :: "RefundResult \<Rightarrow> (pystr \<times> json) list" where
  "RefundResult_to_dict r =
     [(ascii ''total_refund'', JInt (total_refund r)),
      (key_changjunggam, JInt (changjunggam_refund r)),
      (key_goyongjeungdae, JInt (goyongjeungdae_refund r)),
      (key_sahoeboheomryo, JInt (sahoeboheomryo_refund r))]"

text \<open>Modelled from the spec: \<open>RefundResult.from_dict\<close>.\<close>

definition RefundResult_from_dict :: "(pystr \<times> json) list \<Rightarrow> ParseError + RefundResult" where
  "RefundResult_from_dict d =
     bind_parse (field_int d (ascii ''total_refund'') 0) (\<lambda>t.
     bind_parse (field_int d key_changjunggam 0) (\<lambda>a.
     bind_parse (field_int d key_goyongjeungdae 0) (\<lambda>b.
     bind_parse (field_int d key_sahoeboheomryo 0) (\<lambda>c.
     Inr \<lparr>total_refund = t, changjunggam_refund = a, goyongjeungdae_refund = b,
          sahoeboheomryo_refund = c\<rparr>))))"

text \<open>Modelled from the spec: \<open>ActionConfig.to_dict\<close>.\<close>

definition ActionConfig_to_dict :: "ActionConfig \<Rightarrow> (pystr \<times> json) list" where
  "ActionConfig_to_dict a =
     [(ascii ''success'', JBool (success a)),
      (ascii ''error_type'', opt_str_json (error_type a)),
      (ascii ''error_msg'', opt_str_json (error_msg a))]"

text \<open>Modelled from the spec: \<open>ActionConfig.from_dict\<close>.\<close>

definition ActionConfig_from_dict :: "(pystr \<times> json) list \<Rightarrow> ParseError + ActionConfig" where
  "ActionConfig_from_dict d =
     bind_parse (field_bool d (ascii ''success'') True) (\<lambda>s.
     bind_parse (field_opt_str d (ascii ''error_type'')) (\<lambda>t.
     bind_parse (field_opt_str d (ascii ''error_msg'')) (\<lambda>m.
     Inr \<lparr>success = s, error_type = t, error_msg = m\<rparr>)))"

text \<open>Modelled from the spec: \<open>ProgressStep.to_dict\<close>.\<close>

definition ProgressStep_to_dict :: "ProgressStep \<Rightarrow> (pystr \<times> json) list" where
  "ProgressStep_to_dict p =
     [(ascii ''step_name'', JStr (step_name p)),
      (ascii ''progress'', JStr (progress p)),
      (ascii ''delay_seconds'', JFloat (delay_seconds p))]"

text \<open>Modelled from the spec: \<open>ProgressStep.from_dict\<close>.\<close>

definition ProgressStep_from_dict :: "(pystr \<times> json) list \<Rightarrow> ParseError + ProgressStep" where
  "ProgressStep_from_dict d =
     bind_parse (field_str_required d (ascii ''step_name'')) (\<lambda>n.
     bind_parse (field_str_required d (ascii ''progress'')) (\<lambda>p.
     bind_parse (field_number d (ascii ''delay_seconds'') 0.5) (\<lambda>t.
     Inr \<lparr>step_name = n, progress = p, delay_seconds = t\<rparr>)))"

text \<open>Modelled from the spec: an element of \<open>steps\<close> must itself be an object.\<close>

definition ProgressStep_from_json :: "json \<Rightarrow> ParseError + ProgressStep" where
  "ProgressStep_from_json v =
     (case v of
        JObj d \<Rightarrow> ProgressStep_from_dict d
      | _ \<Rightarrow> Inl (ParseError (ascii ''steps'')))"

text \<open>Modelled from the spec: \<open>ProgressConfig.to_dict\<close>.\<close>

definition ProgressConfig_to_dict :: "ProgressConfig \<Rightarrow> (pystr \<times> json) list" where
  "ProgressConfig_to_dict p =
     [(ascii ''enabled'', JBool (enabled p)),
      (ascii ''queue_name'', JStr (queue_name p)),
      (ascii ''steps'', JList (map (\<lambda>s. JObj (ProgressStep_to_dict s)) (steps p)))]"

text \<open>Modelled from the spec: \<open>ProgressConfig.from_dict\<close>.\<close>

definition ProgressConfig_from_dict :: "(pystr \<times> json) list \<Rightarrow> ParseError + ProgressConfig" where
  "ProgressConfig_from_dict d =
     bind_parse (field_bool d (ascii ''enabled'') False) (\<lambda>e.
     bind_parse (field_str d (ascii ''queue_name'') []) (\<lambda>q.
     bind_parse (field_list d (ascii ''steps'')) (\<lambda>xs.
     bind_parse (parse_all ProgressStep_from_json xs) (\<lambda>ss.
     Inr \<lparr>enabled = e, queue_name = q, steps = ss\<rparr>))))"

text \<open>Modelled from the spec: the \<open>biz_type\<close> field, one of the three values of BizType, by default INDIVIDUAL_BIZ.\<close>

definition field_biz_type :: "(pystr \<times> json) list \<Rightarrow> pystr \<Rightarrow> ParseError + BizType" where
  "field_biz_type d k =
     (case map_of d k of
        None \<Rightarrow> Inr INDIVIDUAL_BIZ
      | Some (JStr s) \<Rightarrow>
          (case BizType_of_value s of None \<Rightarrow> Inl (ParseError k) | Some b \<Rightarrow> Inr b)
      | Some _ \<Rightarrow> Inl (ParseError k))"

text \<open>Modelled from the spec: a nested entity is read from its own object.\<close>

definition field_entity ::
    "((pystr \<times> json) list \<Rightarrow> ParseError + 'a) \<Rightarrow> (pystr \<times> json) list \<Rightarrow> pystr
      \<Rightarrow> ParseError + 'a" where
  "field_entity from_dict d k = bind_parse (field_obj d k) from_dict"

text \<open>Modelled from the spec: \<open>ScenarioConfig.to_dict\<close>.\<close>

definition ScenarioConfig_to_dict :: "ScenarioConfig \<Rightarrow> (pystr \<times> json) list" where
  "ScenarioConfig_to_dict s =
     [(ascii ''scenario_name'', JStr (scenario_name s)),
      (ascii ''description'', JStr (description s)),
      (ascii ''user_info'', JObj (UserInfo_to_dict (user_info s))),
      (ascii ''taxpayer_info'', JObj (TaxpayerInfo_to_dict (taxpayer_info s))),
      (ascii ''biz_type'', JStr (BizType_value (biz_type s))),
      (ascii ''refund_result'', JObj (RefundResult_to_dict (refund_result s))),
      (ascii ''cert_request_config'', JObj (ActionConfig_to_dict (cert_request_config s))),
      (ascii ''cert_response_config'', JObj (ActionConfig_to_dict (cert_response_config s))),
      (ascii ''check_config'', JObj (ActionConfig_to_dict (check_config s))),
      (ascii ''load_config'', JObj (ActionConfig_to_dict (load_config s))),
      (ascii ''progress_config'', JObj (ProgressConfig_to_dict (progress_config s)))]"

text \<open>Modelled from the spec: \<open>ScenarioConfig.from_dict\<close>.\<close>

definition ScenarioConfig_from_dict :: "(pystr \<times> json) list \<Rightarrow> ParseError + ScenarioConfig" where
  "ScenarioConfig_from_dict d =
     bind_parse (field_str d (ascii ''scenario_name'') []) (\<lambda>n.
     bind_parse (field_str d (ascii ''description'') []) (\<lambda>ds.
     bind_parse (field_entity UserInfo_from_dict d (ascii ''user_info'')) (\<lambda>u.
     bind_parse (field_entity TaxpayerInfo_from_dict d (ascii ''taxpayer_info'')) (\<lambda>t.
     bind_parse (field_biz_type d (ascii ''biz_type'')) (\<lambda>b.
     bind_parse (field_entity RefundResult_from_dict d (ascii ''refund_result'')) (\<lambda>r.
     bind_parse (field_entity ActionConfig_from_dict d (ascii ''cert_request_config'')) (\<lambda>c1.
     bind_parse (field_entity ActionConfig_from_dict d (ascii ''cert_response_config'')) (\<lambda>c2.
     bind_parse (field_entity ActionConfig_from_dict d (ascii ''check_config'')) (\<lambda>c3.
     bind_parse (field_entity ActionConfig_from_dict d (ascii ''load_config'')) (\<lambda>c4.
     bind_parse (field_entity ProgressConfig_from_dict d (ascii ''progress_config'')) (\<lambda>p.
     Inr \<lparr>scenario_name = n, description = ds, user_info = u, taxpayer_info = t,
          biz_type = b, refund_result = r, cert_request_config = c1,
          cert_response_config = c2, check_config = c3, load_config = c4,
          progress_config = p\<rparr>)))))))))))"


section \<open>server.py: the validator\<close>

record validate_args =
  va_scenario :: "(pystr \<times> json) list option"

text \<open>The reply \<open>{"valid": ..., "errors": [...], "warnings": [...]}\<close>.\<close>

record validate_result =
  valid :: bool
  errors :: "pystr list"
  warnings :: "pystr list"

definition warning_zero_refund :: pystr where
  \<comment> \<open>An individual-business scenario, but the refund is 0 won.\<close>
  "warning_zero_refund =
     [44060, 51064, 49324, 50629, 51088, 32, 49884, 45208, 47532, 50724, 51064, 45936, 32, 54872,
      44553, 50529, 51060, 32, 48, 50896, 51077, 45768, 45796, 46]"

definition warning_phone :: pystr where
  \<comment> \<open>The phone number does not have 11 digits.\<close>
  "warning_phone =
     [51204, 54868, 48264, 54840, 44032, 32, 49, 49, 51088, 47532, 44032, 32, 50500, 45785,
      45768, 45796, 46]"

definition error_birthday :: pystr where
  \<comment> \<open>The birthday must have the format YYYYMMDD.\<close>
  "error_birthday =
     [49373, 45380, 50900, 51068, 51008, 32, 89, 89, 89, 89, 77, 77, 68, 68, 32, 54805, 49885,
      51060, 50612, 50556, 32, 54633, 45768, 45796, 46]"

definition error_tin :: pystr where
  \<comment> \<open>The taxpayer management number must have 18 digits.\<close>
  "error_tin =
     [45225, 49464, 51088, 44288, 47532, 48264, 54840, 45716, 32, 49, 56, 51088, 47532, 50668,
      50556, 32, 54633, 45768, 45796, 46]"

definition parse_error_prefix :: pystr where
  \<comment> \<open>Scenario parse error, a colon and a space\<close>
  "parse_error_prefix =
     [49884, 45208, 47532, 50724, 32, 54028, 49905, 32, 50724, 47448, 58, 32]"

text \<open>\<open>v and len(v) != n\<close> for an optional string: \<open>None\<close> and \<open>""\<close> are falsy.\<close>

definition set_and_len_differs :: "pystr option \<Rightarrow> nat \<Rightarrow> bool" where
  "set_and_len_differs v n = (case v of None \<Rightarrow> False | Some s \<Rightarrow> s \<noteq> [] \<and> length s \<noteq> n)"

text \<open>
  The body of the \<open>try\<close> block after \<open>from_dict\<close> has returned: each rule appends to
  one of the two lists, in this order.
\<close>

definition validation_rules :: "ScenarioConfig \<Rightarrow> pystr list \<times> pystr list" where
  "validation_rules scenario =
     (let warns = [];
          errs = [];
          warns = (if biz_type scenario = INDIVIDUAL_BIZ
                      \<and> total_refund (refund_result scenario) = 0
                   then warns @ [warning_zero_refund] else warns);
          warns = (if set_and_len_differs (phone (user_info scenario)) 11
                   then warns @ [warning_phone] else warns);
          errs = (if set_and_len_differs (birthday (user_info scenario)) 8
                  then errs @ [error_birthday] else errs);
          errs = (if set_and_len_differs (tin (taxpayer_info scenario)) 18
                  then errs @ [error_tin] else errs)
      in (errs, warns))"

definition handle_scenario_validate :: "validate_args \<Rightarrow> validate_result" where
  "handle_scenario_validate arguments =
     (let scenario_data = get_or (va_scenario arguments) [];
          (errs, warns) =
            (case ScenarioConfig_from_dict scenario_data of
               Inr scenario \<Rightarrow> validation_rules scenario
             | Inl e \<Rightarrow> ([parse_error_prefix @ parse_description e], []))
      in \<lparr>valid = (length errs = 0), errors = errs, warnings = warns\<rparr>)"


section \<open>server.py: the template catalog\<close>

text \<open>
  \<open>load_templates()\<close> returns the process-wide \<open>TEMPLATES\<close> dictionary, read from
  files; the handlers take that dictionary as a parameter.
\<close>

type_synonym catalog = "(pystr \<times> (pystr \<times> json) list) list"

record template_list_args =
  tl_category :: "pystr option"

record template_summary =
  ts_template_id :: pystr
  ts_description :: json
  ts_total_refund :: json
  ts_biz_type :: json

text \<open>The reply \<open>{"templates": [...], "count": ...}\<close>.\<close>

record template_list_result =
  templates :: "template_summary list"
  count :: nat

text \<open>An uncaught exception of the handler.\<close>

datatype py_exception = AttributeError

text \<open>The three \<open>continue\<close> conditions of the category filter.\<close>

definition category_skips :: "pystr \<Rightarrow> pystr \<Rightarrow> bool" where
  "category_skips category template_id =
     (category \<noteq> ascii ''all'' \<and>
       ((category = ascii ''normal'' \<and> str_contains (ascii ''ERR'') template_id)
        \<or> (category = ascii ''error'' \<and> \<not> str_contains (ascii ''ERR'') template_id)
        \<or> (category = ascii ''corp'' \<and> \<not> str_contains (ascii ''CORP'') template_id)))"

text \<open>\<open>v.get(key, default)\<close> on a value of any type: only an object has \<open>get\<close>.\<close>

definition json_get :: "json \<Rightarrow> pystr \<Rightarrow> json \<Rightarrow> py_exception + json" where
  "json_get v k dflt =
     (case v of JObj d \<Rightarrow> Inr (dict_get d k dflt) | _ \<Rightarrow> Inl AttributeError)"

definition summarize_template ::
    "pystr \<Rightarrow> (pystr \<times> json) list \<Rightarrow> py_exception + template_summary" where
  "summarize_template template_id template_data =
     (let refund = dict_get template_data (ascii ''refund_result'') (JObj [])
      in case json_get refund (ascii ''total_refund'') (JInt 0) of
           Inl e \<Rightarrow> Inl e
         | Inr amount \<Rightarrow>
             Inr \<lparr>ts_template_id = template_id,
                  ts_description = dict_get template_data (ascii ''description'') (JStr []),
                  ts_total_refund = amount,
                  ts_biz_type =
                    dict_get template_data (ascii ''biz_type'') (JStr (ascii ''unknown''))\<rparr>)"

text \<open>The loop over \<open>templates.items()\<close>; the third argument is the list \<open>result\<close>.\<close>

fun template_list_loop ::
    "pystr \<Rightarrow> catalog \<Rightarrow> template_summary list \<Rightarrow> py_exception + template_summary list" where
  "template_list_loop category [] result = Inr result"
| "template_list_loop category ((template_id, template_data) # rest) result =
     (if category_skips category template_id then template_list_loop category rest result
      else case summarize_template template_id template_data of
             Inl e \<Rightarrow> Inl e
           | Inr s \<Rightarrow> template_list_loop category rest (result @ [s]))"

definition handle_template_list ::
    "catalog \<Rightarrow> template_list_args \<Rightarrow> py_exception + template_list_result" where
  "handle_template_list tpls arguments =
     (let category = get_or (tl_category arguments) (ascii ''all'')
      in case template_list_loop category tpls [] of
           Inl e \<Rightarrow> Inl e
         | Inr result \<Rightarrow> Inr \<lparr>templates = result, count = length result\<rparr>)"

text \<open>
  A catalog of scenario representations: the \<open>refund_result\<close> of a template, when
  present, is an object.
\<close>

definition template_well_formed :: "(pystr \<times> json) list \<Rightarrow> bool" where
  "template_well_formed template_data =
     (case map_of template_data (ascii ''refund_result'') of
        None \<Rightarrow> True
      | Some (JObj d) \<Rightarrow> True
      | Some _ \<Rightarrow> False)"

definition catalog_well_formed :: "catalog \<Rightarrow> bool" where
  "catalog_well_formed tpls = list_all (\<lambda>(template_id, template_data).
     template_well_formed template_data) tpls"


section \<open>server.py: assignment\<close>

record assign_args =
  as_user_ern :: "pystr option"
  as_scenario :: "(pystr \<times> json) list option"
  as_template_id :: "pystr option"

text \<open>
  The four shapes of reply: \<open>{"error"}\<close>, \<open>{"error", "available_templates"}\<close>,
  \<open>{"success": True, "user_ern", "message"}\<close> and
  \<open>{"success": False, "error", "user_ern", "scenario", "note"}\<close>.
\<close>

datatype assign_reply =
    ErrorReply pystr
  | TemplateNotFoundReply pystr "pystr list"
  | AssignedReply pystr pystr
  | StoreFailedReply pystr pystr "(pystr \<times> json) list" pystr

text \<open>
  Everything inside the \<open>try\<close> block is the external store: it is given the key and the
  scenario and either returns or raises an exception \<open>e\<close>, of which the handler uses
  \<open>str(e)\<close>.
\<close>

datatype put_outcome = PutOk | PutRaised pystr

type_synonym store_put = "pystr \<Rightarrow> (pystr \<times> json) list \<Rightarrow> put_outcome"

definition store_failed_prefix :: pystr where
  \<comment> \<open>DynamoDB save failed, a colon and a space\<close>
  "store_failed_prefix =
     [68, 121, 110, 97, 109, 111, 68, 66, 32, 51200, 51109, 32, 49892, 54056, 58, 32]"

definition store_failed_note :: pystr where
  \<comment> \<open>Could not save to DynamoDB. Please save the scenario above by hand.\<close>
  "store_failed_note =
     [68, 121, 110, 97, 109, 111, 68, 66, 50640, 32, 51200, 51109, 54616, 51648, 32, 47803,
      54664, 49845, 45768, 45796, 46, 32, 50948, 32, 49884, 45208, 47532, 50724, 47484, 32,
      49688, 46041, 51004, 47196, 32, 51200, 51109, 54644, 51452, 49464, 50836, 46]"

definition assigned_message_head :: pystr where
  \<comment> \<open>The scenario, with its subject particle and a space\<close>
  "assigned_message_head =
     [49884, 45208, 47532, 50724, 44032, 32]"

definition assigned_message_tail :: pystr where
  \<comment> \<open>has been assigned to (the text that follows the user_ern)\<close>
  "assigned_message_tail =
     [50640, 32, 54624, 45817, 46104, 50632, 49845, 45768, 45796, 46]"

definition MissingScenarioInput :: assign_reply where
  "MissingScenarioInput = ErrorReply (ascii ''Either scenario or template_id is required'')"

definition TemplateNotFound :: "pystr \<Rightarrow> catalog \<Rightarrow> assign_reply" where
  "TemplateNotFound template_id tpls =
     TemplateNotFoundReply (ascii ''Template not found: '' @ template_id) (dict_keys tpls)"

text \<open>
  The block that decides the scenario: \<open>if scenario_data: ... elif template_id: ...
  else: ...\<close>. An absent value and an empty one are both falsy.
\<close>

definition resolve_scenario :: "catalog \<Rightarrow> assign_args \<Rightarrow> assign_reply + (pystr \<times> json) list" where
  "resolve_scenario tpls arguments =
     (let scenario_data = get_or (as_scenario arguments) [];
          template_id = get_or (as_template_id arguments) []
      in if scenario_data \<noteq> [] then Inr scenario_data
         else if template_id \<noteq> [] then
           (case map_of tpls template_id of
              None \<Rightarrow> Inl (TemplateNotFound template_id tpls)
            | Some scenario \<Rightarrow> Inr scenario)
         else Inl MissingScenarioInput)"

text \<open>
  The part of the handler before the store is called: the check of \<open>user_ern\<close> and
  the decision of the scenario. It ends in an early reply, or with the key and the
  scenario that are handed to the store.
\<close>

definition assign_request ::
    "catalog \<Rightarrow> assign_args \<Rightarrow> assign_reply + (pystr \<times> (pystr \<times> json) list)" where
  "assign_request tpls arguments =
     (let user_ern = get_or (as_user_ern arguments) []
      in if user_ern = [] then Inl (ErrorReply (ascii ''user_ern is required''))
         else case resolve_scenario tpls arguments of
                Inl reply \<Rightarrow> Inl reply
              | Inr scenario \<Rightarrow> Inr (user_ern, scenario))"

text \<open>The \<open>try\<close>/\<open>except\<close> around the store.\<close>

definition store_scenario :: "store_put \<Rightarrow> pystr \<Rightarrow> (pystr \<times> json) list \<Rightarrow> assign_reply" where
  "store_scenario put user_ern scenario =
     (case put user_ern scenario of
        PutOk \<Rightarrow>
          AssignedReply user_ern (assigned_message_head @ user_ern @ assigned_message_tail)
      | PutRaised e \<Rightarrow>
          StoreFailedReply (store_failed_prefix @ e) user_ern scenario store_failed_note)"

definition handle_scenario_assign :: "store_put \<Rightarrow> catalog \<Rightarrow> assign_args \<Rightarrow> assign_reply" where
  "handle_scenario_assign put tpls arguments =
     (case assign_request tpls arguments of
        Inl reply \<Rightarrow> reply
      | Inr (user_ern, scenario) \<Rightarrow> store_scenario put user_ern scenario)"


section \<open>Concrete inputs\<close>

text \<open>Two stores: one that is unreachable, one that accepts.\<close>

definition unreachable_store :: store_put where
  "unreachable_store k v = PutRaised (ascii ''unreachable'')"

definition accepting_store :: store_put where
  "accepting_store k v = PutOk"

text \<open>A catalog of three templates, in this insertion order.\<close>

definition example_catalog :: catalog where
  "example_catalog =
     [(ascii ''TPL_NORMAL_A'', []),
      (ascii ''TPL_ERR_B'', [(ascii ''biz_type'', JStr (ascii ''non_biz''))]),
      (ascii ''TPL_CORP_C'',
         [(ascii ''refund_result'', JObj [(ascii ''total_refund'', JInt 5)])])]"

text \<open>An inline scenario representation.\<close>

definition example_scenario :: "(pystr \<times> json) list" where
  "example_scenario = [(ascii ''scenario_name'', JStr (ascii ''inline''))]"


section \<open>Basic facts\<close>

lemma ascii_eq_iff: "ascii a = ascii b \<longleftrightarrow> a = b"
  unfolding ascii_def by (simp add: inj_map_eq_map inj_on_def)

lemma str_contains_iff_sublist: "str_contains sub s \<longleftrightarrow> sublist sub s"
  by (induction s) (auto simp: sublist_Cons_right)

lemma ErrorType_of_value_value: "ErrorType_of_value (ErrorType_value k) = Some k"
  by (cases k) (simp_all add: ErrorType_of_value_def ErrorType_members_def)

lemma ErrorType_of_value_None:
  "s \<notin> set (map ErrorType_value ErrorType_members) \<Longrightarrow> ErrorType_of_value s = None"
  unfolding ErrorType_of_value_def by (auto simp: find_None_iff)

lemma BizType_of_value_value: "BizType_of_value (BizType_value b) = Some b"
  by (cases b) (simp_all add: BizType_of_value_def BizType_members_def ascii_eq_iff)

text \<open>The two tables of the error taxonomy have an entry for every kind.\<close>

lemma ERROR_MESSAGES_complete: "\<exists>m. map_of ERROR_MESSAGES k = Some m"
  by (cases k) (simp_all add: ERROR_MESSAGES_def)

lemma ERROR_DEFAULT_ACTION_range:
  "map_of ERROR_DEFAULT_ACTION k \<in> {Some LOAD, Some CERT_RESPONSE, Some CHECK}"
  by (cases k) (simp_all add: ERROR_DEFAULT_ACTION_def)


section \<open>Serialization round trip\<close>

lemmas field_defs = field_str_def field_str_required_def field_opt_str_def field_int_def
  field_bool_def field_number_def field_obj_def field_list_def field_biz_type_def
  field_entity_def bind_parse_def opt_str_json_def

lemmas from_dict_defs = ScenarioConfig_from_dict_def UserInfo_from_dict_def
  TaxpayerInfo_from_dict_def RefundResult_from_dict_def ActionConfig_from_dict_def
  ProgressConfig_from_dict_def

lemma UserInfo_round_trip: "UserInfo_from_dict (UserInfo_to_dict u) = Inr u"
  by (simp add: UserInfo_from_dict_def UserInfo_to_dict_def field_defs ascii_eq_iff
        split: option.splits)

lemma TaxpayerInfo_round_trip: "TaxpayerInfo_from_dict (TaxpayerInfo_to_dict t) = Inr t"
  by (simp add: TaxpayerInfo_from_dict_def TaxpayerInfo_to_dict_def field_defs
        split: option.splits)

lemma refund_keys_distinct:
  "distinct [ascii ''total_refund'', key_changjunggam, key_goyongjeungdae, key_sahoeboheomryo]"
  by (simp add: ascii_def key_changjunggam_def key_goyongjeungdae_def key_sahoeboheomryo_def)

lemma RefundResult_round_trip: "RefundResult_from_dict (RefundResult_to_dict r) = Inr r"
  using refund_keys_distinct
  by (simp add: RefundResult_from_dict_def RefundResult_to_dict_def field_defs eq_commute)

lemma ActionConfig_round_trip: "ActionConfig_from_dict (ActionConfig_to_dict a) = Inr a"
  by (simp add: ActionConfig_from_dict_def ActionConfig_to_dict_def field_defs ascii_eq_iff
        split: option.splits)

lemma ProgressStep_round_trip: "ProgressStep_from_dict (ProgressStep_to_dict p) = Inr p"
  by (simp add: ProgressStep_from_dict_def ProgressStep_to_dict_def field_defs ascii_eq_iff)

lemma steps_round_trip:
  "parse_all ProgressStep_from_json (map (\<lambda>s. JObj (ProgressStep_to_dict s)) xs) = Inr xs"
  by (induction xs)
     (simp_all add: ProgressStep_from_json_def ProgressStep_round_trip bind_parse_def)

lemma ProgressConfig_round_trip: "ProgressConfig_from_dict (ProgressConfig_to_dict p) = Inr p"
  by (simp add: ProgressConfig_from_dict_def ProgressConfig_to_dict_def field_defs
        ascii_eq_iff steps_round_trip)

text \<open>
  C1. Deserializing the serialized form of a scenario gives the scenario back, field by
  field: \<open>ScenarioConfig.from_dict(s.to_dict()) == s\<close> for every scenario \<open>s\<close>. Both
  functions are the ones modelled from the specification.
\<close>

theorem scenario_round_trip: "ScenarioConfig_from_dict (ScenarioConfig_to_dict s) = Inr s"
  by (simp add: ScenarioConfig_from_dict_def ScenarioConfig_to_dict_def field_defs
        ascii_eq_iff UserInfo_round_trip TaxpayerInfo_round_trip RefundResult_round_trip
        ActionConfig_round_trip ProgressConfig_round_trip BizType_of_value_value)

theorem scenario_round_trip_witness:
  "ScenarioConfig_from_dict
     (ScenarioConfig_to_dict
        (ScenarioConfig_default\<lparr>biz_type := CORP,
           load_config := \<lparr>success = False, error_type = Some (ErrorType_value CALC_ERROR),
                           error_msg = None\<rparr>\<rparr>))
   = Inr (ScenarioConfig_default\<lparr>biz_type := CORP,
           load_config := \<lparr>success = False, error_type = Some (ErrorType_value CALC_ERROR),
                           error_msg = None\<rparr>\<rparr>)"
  using scenario_round_trip
    [of "ScenarioConfig_default\<lparr>biz_type := CORP,
           load_config := \<lparr>success = False, error_type = Some (ErrorType_value CALC_ERROR),
                           error_msg = None\<rparr>\<rparr>"]
  by simp


section \<open>The error builder\<close>

text \<open>
  C2. For every error kind, \<open>handle_scenario_build_error\<close> called with that kind's value
  and neither a message nor an action returns a scenario. Its slot for the kind's default
  action holds \<open>success = False\<close>, the kind's value as \<open>error_type\<close> and the kind's entry
  of \<open>ERROR_MESSAGES\<close> as \<open>error_msg\<close>; every other slot is the default one; exactly one
  of the four slots has \<open>success = False\<close>.
\<close>

theorem build_error_default_slot:
  "\<exists>s m a. map_of ERROR_MESSAGES k = Some m \<and> map_of ERROR_DEFAULT_ACTION k = Some a
     \<and> handle_scenario_build_error
          \<lparr>be_user_name = u, be_error_type = Some (ErrorType_value k),
           be_error_msg = None, be_action = None\<rparr> = Inr s
     \<and> stage_slot a s
          = Some \<lparr>success = False, error_type = Some (ErrorType_value k), error_msg = Some m\<rparr>
     \<and> (\<forall>b. b \<noteq> a \<and> b \<noteq> CALC \<longrightarrow> stage_slot b s = Some ActionConfig_default)
     \<and> length (filter (\<lambda>c. \<not> success c)
          [cert_request_config s, cert_response_config s, check_config s, load_config s]) = 1"
proof -
  obtain m where m: "map_of ERROR_MESSAGES k = Some m"
    using ERROR_MESSAGES_complete by blast
  have other: "\<And>b. b \<noteq> CALC \<Longrightarrow> b \<noteq> LOAD \<Longrightarrow> b \<noteq> CHECK \<Longrightarrow> b \<noteq> CERT_RESPONSE
      \<Longrightarrow> b = CERT_REQUEST"
    by (metis ActionType.exhaust)
  note defs = handle_scenario_build_error_def ErrorType_of_value_value get_or_def
    resolve_error_msg_def resolve_action_str_def dict_get_def set_error_config_def
    ascii_eq_iff ScenarioConfig_default_def ActionConfig_default_def Let_def
  from ERROR_DEFAULT_ACTION_range [of k]
  consider "map_of ERROR_DEFAULT_ACTION k = Some LOAD"
    | "map_of ERROR_DEFAULT_ACTION k = Some CERT_RESPONSE"
    | "map_of ERROR_DEFAULT_ACTION k = Some CHECK"
    by auto
  then show ?thesis
  proof cases
    case 1
    with m show ?thesis by (auto simp add: defs dest: other)
  next
    case 2
    with m show ?thesis by (auto simp add: defs dest: other)
  next
    case 3
    with m show ?thesis by (auto simp add: defs dest: other)
  qed
qed

theorem build_error_default_slot_witness:
  "\<exists>s. handle_scenario_build_error
          \<lparr>be_user_name = None, be_error_type = Some (ErrorType_value LOGIN_FAILED),
           be_error_msg = None, be_action = None\<rparr> = Inr s
     \<and> check_config s
          = \<lparr>success = False, error_type = Some (ErrorType_value LOGIN_FAILED),
             error_msg = Some
               [54856, 53469, 49828, 32, 47196, 44536, 51064, 50640, 32, 49892, 54056, 54664, 49845, 45768,
      45796, 46]\<rparr>
     \<and> load_config s = ActionConfig_default"
proof -
  from build_error_default_slot [of LOGIN_FAILED None] obtain s m a where
    m: "map_of ERROR_MESSAGES LOGIN_FAILED = Some m" and
    a: "map_of ERROR_DEFAULT_ACTION LOGIN_FAILED = Some a" and
    s: "handle_scenario_build_error
          \<lparr>be_user_name = None, be_error_type = Some (ErrorType_value LOGIN_FAILED),
           be_error_msg = None, be_action = None\<rparr> = Inr s" and
    slot: "stage_slot a s
          = Some \<lparr>success = False, error_type = Some (ErrorType_value LOGIN_FAILED),
                  error_msg = Some m\<rparr>" and
    rest: "\<forall>b. b \<noteq> a \<and> b \<noteq> CALC \<longrightarrow> stage_slot b s = Some ActionConfig_default"
    by blast
  from a have a': "a = CHECK" by (simp add: ERROR_DEFAULT_ACTION_def)
  from rest have "LOAD \<noteq> a \<and> LOAD \<noteq> CALC \<longrightarrow> stage_slot LOAD s = Some ActionConfig_default"
    by blast
  with a' have "load_config s = ActionConfig_default" by simp
  with m s slot a' show ?thesis by (simp add: ERROR_MESSAGES_def)
qed

text \<open>
  C3. For every \<open>error_type\<close> string that is not the value of a member of \<open>ErrorType\<close>,
  \<open>handle_scenario_build_error\<close> returns the unknown-error-type reply, which carries the
  values of all members in their order of definition; no scenario is returned.
\<close>

theorem build_error_unknown_kind:
  assumes "s \<notin> set (map ErrorType_value ErrorType_members)"
  shows "handle_scenario_build_error
           \<lparr>be_user_name = u, be_error_type = Some s, be_error_msg = m, be_action = a\<rparr>
         = Inl (UnknownErrorKind (ascii ''Unknown error type: '' @ s)
                  (map ErrorType_value ErrorType_members))"
  using ErrorType_of_value_None [OF assms]
  by (simp add: handle_scenario_build_error_def Let_def get_or_def)

theorem build_error_unknown_kind_witness:
  "ascii ''not-a-real-kind'' \<notin> set (map ErrorType_value ErrorType_members)
   \<and> handle_scenario_build_error
        \<lparr>be_user_name = None, be_error_type = Some (ascii ''not-a-real-kind''),
         be_error_msg = None, be_action = None\<rparr>
      = Inl (UnknownErrorKind (ascii ''Unknown error type: not-a-real-kind'')
              (map ErrorType_value ErrorType_members))"
proof -
  have h: "ascii ''not-a-real-kind'' \<notin> set (map ErrorType_value ErrorType_members)"
    by (simp add: ErrorType_members_def ascii_def)
  show ?thesis
    using h build_error_unknown_kind [OF h, of None None None]
    by (simp add: ascii_def)
qed

text \<open>
  C10. For every error kind and every resolved action string other than
  \<open>"cert_request"\<close>, \<open>"cert_response"\<close> and \<open>"check"\<close> (so also \<open>"calc"\<close> and any
  other string), \<open>handle_scenario_build_error\<close> returns a scenario whose \<open>load_config\<close>
  is the failing outcome; the other three slots keep their default.
\<close>

theorem build_error_load_catch_all:
  assumes "be_error_type arguments = Some (ErrorType_value k)"
    and "resolve_action_str k (get_or (be_action arguments) [])
           \<notin> {ascii ''cert_request'', ascii ''cert_response'', ascii ''check''}"
  shows "\<exists>s. handle_scenario_build_error arguments = Inr s
     \<and> load_config s =
         \<lparr>success = False, error_type = Some (ErrorType_value k),
          error_msg = Some (resolve_error_msg k (get_or (be_error_msg arguments) []))\<rparr>
     \<and> cert_request_config s = ActionConfig_default
     \<and> cert_response_config s = ActionConfig_default
     \<and> check_config s = ActionConfig_default"
  using assms
  by (simp add: handle_scenario_build_error_def ErrorType_of_value_value get_or_def
        set_error_config_def ScenarioConfig_default_def Let_def)

theorem build_error_load_catch_all_witness:
  "resolve_action_str LOGIN_FAILED (ascii ''calc'')
      \<notin> {ascii ''cert_request'', ascii ''cert_response'', ascii ''check''}
   \<and> (\<exists>s. handle_scenario_build_error
        \<lparr>be_user_name = None, be_error_type = Some (ErrorType_value LOGIN_FAILED),
         be_error_msg = None, be_action = Some (ascii ''calc'')\<rparr> = Inr s
     \<and> load_config s =
         \<lparr>success = False, error_type = Some (ErrorType_value LOGIN_FAILED),
          error_msg = Some (dict_get ERROR_MESSAGES LOGIN_FAILED unknown_error_msg)\<rparr>
     \<and> check_config s = ActionConfig_default)"
proof -
  let ?args = "\<lparr>be_user_name = None, be_error_type = Some (ErrorType_value LOGIN_FAILED),
         be_error_msg = None, be_action = Some (ascii ''calc'')\<rparr>"
  have h1: "be_error_type ?args = Some (ErrorType_value LOGIN_FAILED)" by simp
  have h2: "resolve_action_str LOGIN_FAILED (get_or (be_action ?args) [])
      \<notin> {ascii ''cert_request'', ascii ''cert_response'', ascii ''check''}"
    by (simp add: get_or_def resolve_action_str_def ascii_def)
  from build_error_load_catch_all [OF h1 h2] obtain s where
    "handle_scenario_build_error ?args = Inr s"
    "load_config s = \<lparr>success = False, error_type = Some (ErrorType_value LOGIN_FAILED),
          error_msg = Some (resolve_error_msg LOGIN_FAILED (get_or (be_error_msg ?args) []))\<rparr>"
    "check_config s = ActionConfig_default" by blast
  then show ?thesis using h2
    by (simp add: get_or_def resolve_error_msg_def)
qed


section \<open>The progress builder\<close>

text \<open>
  C7. When the \<open>steps\<close> argument is absent or empty, the scenario that
  \<open>handle_scenario_build_progress\<close> returns has an enabled \<open>progress_config\<close> with
  exactly the four steps login 10%, history lookup 30%, calculation 60% and result
  generation 90%, in this order, with the delays 0.5, 1.0, 1.5 and 0.5. When a non-empty
  list is given, the steps are the given ones in the given order, a missing delay being
  0.5 (and a missing name or progress being \<open>""\<close> and \<open>"0%"\<close>).
\<close>

theorem build_progress_steps:
  "(bp_steps arguments = None \<or> bp_steps arguments = Some [] \<longrightarrow>
      progress_config (handle_scenario_build_progress arguments) =
        \<lparr>enabled = True,
         queue_name = get_or (bp_queue_name arguments) (ascii ''refund-search.fifo''),
         steps =
           [\<lparr>step_name = step_login, progress = ascii ''10%'', delay_seconds = 0.5\<rparr>,
            \<lparr>step_name = step_history, progress = ascii ''30%'', delay_seconds = 1.0\<rparr>,
            \<lparr>step_name = step_calculation, progress = ascii ''60%'', delay_seconds = 1.5\<rparr>,
            \<lparr>step_name = step_result, progress = ascii ''90%'', delay_seconds = 0.5\<rparr>]\<rparr>)
   \<and> (\<forall>xs. bp_steps arguments = Some xs \<and> xs \<noteq> [] \<longrightarrow>
        enabled (progress_config (handle_scenario_build_progress arguments))
        \<and> map step_name (steps (progress_config (handle_scenario_build_progress arguments)))
            = map (\<lambda>x. get_or (sa_step_name x) []) xs
        \<and> map progress (steps (progress_config (handle_scenario_build_progress arguments)))
            = map (\<lambda>x. get_or (sa_progress x) (ascii ''0%'')) xs
        \<and> map delay_seconds (steps (progress_config (handle_scenario_build_progress arguments)))
            = map (\<lambda>x. get_or (sa_delay_seconds x) 0.5) xs)"
  by (auto simp add: handle_scenario_build_progress_def ScenarioConfig_default_def Let_def
        get_or_def default_steps_data_def make_step_def)

theorem build_progress_steps_witness:
  "map delay_seconds (steps (progress_config (handle_scenario_build_progress
      \<lparr>bp_user_name = None, bp_total_refund = Some 100000, bp_queue_name = Some (ascii ''q''),
       bp_steps = Some []\<rparr>))) = [0.5, 1.0, 1.5, 0.5]
   \<and> map progress (steps (progress_config (handle_scenario_build_progress
      \<lparr>bp_user_name = None, bp_total_refund = Some 100000, bp_queue_name = Some (ascii ''q''),
       bp_steps = Some []\<rparr>))) = [ascii ''10%'', ascii ''30%'', ascii ''60%'', ascii ''90%'']
   \<and> map delay_seconds (steps (progress_config (handle_scenario_build_progress
      \<lparr>bp_user_name = None, bp_total_refund = Some 100000, bp_queue_name = Some (ascii ''q''),
       bp_steps = Some
         [\<lparr>sa_step_name = Some (ascii ''b''), sa_progress = Some (ascii ''50%''),
           sa_delay_seconds = None\<rparr>,
          \<lparr>sa_step_name = Some (ascii ''a''), sa_progress = Some (ascii ''20%''),
           sa_delay_seconds = Some 2\<rparr>]\<rparr>))) = [0.5, 2]"
  using build_progress_steps
      [of "\<lparr>bp_user_name = None, bp_total_refund = Some 100000,
            bp_queue_name = Some (ascii ''q''), bp_steps = Some []\<rparr>"]
    build_progress_steps
      [of "\<lparr>bp_user_name = None, bp_total_refund = Some 100000,
            bp_queue_name = Some (ascii ''q''), bp_steps = Some
         [\<lparr>sa_step_name = Some (ascii ''b''), sa_progress = Some (ascii ''50%''),
           sa_delay_seconds = None\<rparr>,
          \<lparr>sa_step_name = Some (ascii ''a''), sa_progress = Some (ascii ''20%''),
           sa_delay_seconds = Some 2\<rparr>]\<rparr>"]
  by (simp add: get_or_def)


section \<open>The validator\<close>

text \<open>
  C4. When \<open>from_dict\<close> fails on the input of \<open>handle_scenario_validate\<close>, the reply has
  exactly one error, the one that describes the parse failure, and no warning: no rule
  has added anything. For every input, \<open>valid\<close> holds if and only if the list of errors
  is empty, whatever the warnings are.
\<close>

theorem validate_parse_failure:
  "(\<forall>e. ScenarioConfig_from_dict (get_or (va_scenario arguments) []) = Inl e \<longrightarrow>
       errors (handle_scenario_validate arguments) = [parse_error_prefix @ parse_description e]
       \<and> warnings (handle_scenario_validate arguments) = [])
   \<and> (valid (handle_scenario_validate arguments)
        \<longleftrightarrow> errors (handle_scenario_validate arguments) = [])"
proof
  show "\<forall>e. ScenarioConfig_from_dict (get_or (va_scenario arguments) []) = Inl e \<longrightarrow>
       errors (handle_scenario_validate arguments) = [parse_error_prefix @ parse_description e]
       \<and> warnings (handle_scenario_validate arguments) = []"
  proof (intro allI impI)
    fix e
    assume "ScenarioConfig_from_dict (get_or (va_scenario arguments) []) = Inl e"
    then show "errors (handle_scenario_validate arguments)
          = [parse_error_prefix @ parse_description e]
        \<and> warnings (handle_scenario_validate arguments) = []"
      by (simp add: handle_scenario_validate_def)
  qed
next
  show "valid (handle_scenario_validate arguments)
        \<longleftrightarrow> errors (handle_scenario_validate arguments) = []"
    by (simp add: handle_scenario_validate_def Let_def split: prod.splits)
qed

theorem validate_parse_failure_witness:
  "ScenarioConfig_from_dict [(ascii ''biz_type'', JStr (ascii ''bogus''))]
     = Inl (ParseError (ascii ''biz_type''))
   \<and> errors (handle_scenario_validate
        \<lparr>va_scenario = Some [(ascii ''biz_type'', JStr (ascii ''bogus''))]\<rparr>)
      = [parse_error_prefix @ ascii ''biz_type'']
   \<and> warnings (handle_scenario_validate
        \<lparr>va_scenario = Some [(ascii ''biz_type'', JStr (ascii ''bogus''))]\<rparr>) = []
   \<and> \<not> valid (handle_scenario_validate
        \<lparr>va_scenario = Some [(ascii ''biz_type'', JStr (ascii ''bogus''))]\<rparr>)"
proof -
  have h: "ScenarioConfig_from_dict [(ascii ''biz_type'', JStr (ascii ''bogus''))]
     = Inl (ParseError (ascii ''biz_type''))"
    by (simp add: from_dict_defs field_defs ascii_eq_iff BizType_of_value_def
          BizType_members_def)
  show ?thesis
    using h validate_parse_failure
      [of "\<lparr>va_scenario = Some [(ascii ''biz_type'', JStr (ascii ''bogus''))]\<rparr>"]
    by (simp add: get_or_def parse_description_def)
qed

text \<open>
  C8. For the input whose \<open>user_info\<close> has the birthday \<open>"2024"\<close> and nothing else,
  \<open>handle_scenario_validate\<close> returns exactly one error, the one about the format of
  the birthday. (The defaults also give the warning about a refund of 0, which is not an
  error.) The same holds of the rules on the scenario built with that birthday.
\<close>

theorem validate_birthday_2024:
  "handle_scenario_validate
     \<lparr>va_scenario =
        Some [(ascii ''user_info'', JObj [(ascii ''birthday'', JStr (ascii ''2024''))])]\<rparr>
   = \<lparr>valid = False, errors = [error_birthday], warnings = [warning_zero_refund]\<rparr>
   \<and> validation_rules
        (ScenarioConfig_default
           \<lparr>user_info := UserInfo_default\<lparr>birthday := Some (ascii ''2024'')\<rparr>\<rparr>)
      = ([error_birthday], [warning_zero_refund])"
  by (simp add: handle_scenario_validate_def get_or_def from_dict_defs field_defs
        ascii_eq_iff validation_rules_def set_and_len_differs_def ScenarioConfig_default_def
        UserInfo_default_def TaxpayerInfo_default_def RefundResult_default_def ascii_def)

theorem validate_birthday_2024_witness:
  "errors (handle_scenario_validate
     \<lparr>va_scenario =
        Some [(ascii ''user_info'', JObj [(ascii ''birthday'', JStr (ascii ''2024''))])]\<rparr>)
   = [error_birthday]"
  using validate_birthday_2024 by simp


section \<open>The template catalog\<close>

lemma summarize_well_formed:
  "template_well_formed template_data \<Longrightarrow>
     \<exists>s. summarize_template template_id template_data = Inr s \<and> ts_template_id s = template_id"
  by (auto simp: template_well_formed_def summarize_template_def dict_get_def json_get_def
        split: option.splits json.splits)

lemma template_list_loop_ids:
  "catalog_well_formed tpls \<Longrightarrow>
     \<exists>r. template_list_loop category tpls acc = Inr r
       \<and> map ts_template_id r =
           map ts_template_id acc
             @ filter (\<lambda>t. \<not> category_skips category t) (dict_keys tpls)"
proof (induction tpls arbitrary: acc)
  case Nil
  then show ?case by (simp add: dict_keys_def)
next
  case (Cons entry tpls)
  obtain template_id template_data where entry: "entry = (template_id, template_data)"
    by (cases entry)
  from Cons.prems entry have wf: "template_well_formed template_data"
    and rest: "catalog_well_formed tpls"
    by (simp_all add: catalog_well_formed_def)
  show ?case
  proof (cases "category_skips category template_id")
    case True
    with Cons.IH [OF rest, of acc] entry show ?thesis by (simp add: dict_keys_def)
  next
    case False
    from summarize_well_formed [OF wf, of template_id] obtain s where
      s: "summarize_template template_id template_data = Inr s" "ts_template_id s = template_id"
      by blast
    with Cons.IH [OF rest, of "acc @ [s]"] entry False show ?thesis
      by (simp add: dict_keys_def)
  qed
qed

text \<open>
  C6. For every catalog of scenario representations, \<open>handle_template_list\<close> returns, in
  the order of the catalog: with category \<open>"error"\<close> the templates whose identifier
  contains \<open>"ERR"\<close>; with \<open>"normal"\<close> those whose identifier does not contain \<open>"ERR"\<close>
  (a CORP template without \<open>"ERR"\<close> among them); with \<open>"corp"\<close> those whose identifier
  contains \<open>"CORP"\<close>; with \<open>"all"\<close> every template.
\<close>

theorem template_list_filter:
  assumes "catalog_well_formed tpls"
  shows "\<exists>r. handle_template_list tpls \<lparr>tl_category = Some category\<rparr> = Inr r
     \<and> count r = length (templates r)
     \<and> (category = ascii ''error'' \<longrightarrow>
          map ts_template_id (templates r) = filter (sublist (ascii ''ERR'')) (dict_keys tpls))
     \<and> (category = ascii ''normal'' \<longrightarrow>
          map ts_template_id (templates r)
            = filter (\<lambda>t. \<not> sublist (ascii ''ERR'') t) (dict_keys tpls))
     \<and> (category = ascii ''corp'' \<longrightarrow>
          map ts_template_id (templates r) = filter (sublist (ascii ''CORP'')) (dict_keys tpls))
     \<and> (category = ascii ''all'' \<longrightarrow>
          map ts_template_id (templates r) = dict_keys tpls)"
proof -
  from template_list_loop_ids [OF assms, of category "[]"] obtain r where
    r: "template_list_loop category tpls [] = Inr r"
       "map ts_template_id r = filter (\<lambda>t. \<not> category_skips category t) (dict_keys tpls)"
    by auto
  have "handle_template_list tpls \<lparr>tl_category = Some category\<rparr>
          = Inr \<lparr>templates = r, count = length r\<rparr>"
    using r(1) by (simp add: handle_template_list_def get_or_def)
  moreover have "category = ascii ''error'' \<Longrightarrow>
      map ts_template_id r = filter (sublist (ascii ''ERR'')) (dict_keys tpls)"
    using r(2) by (simp add: category_skips_def ascii_eq_iff str_contains_iff_sublist)
  moreover have "category = ascii ''normal'' \<Longrightarrow>
      map ts_template_id r = filter (\<lambda>t. \<not> sublist (ascii ''ERR'') t) (dict_keys tpls)"
    using r(2) by (simp add: category_skips_def ascii_eq_iff str_contains_iff_sublist)
  moreover have "category = ascii ''corp'' \<Longrightarrow>
      map ts_template_id r = filter (sublist (ascii ''CORP'')) (dict_keys tpls)"
    using r(2) by (simp add: category_skips_def ascii_eq_iff str_contains_iff_sublist)
  moreover have "category = ascii ''all'' \<Longrightarrow> map ts_template_id r = dict_keys tpls"
    using r(2) by (simp add: category_skips_def)
  ultimately show ?thesis by simp
qed

lemma example_catalog_keys:
  "dict_keys example_catalog = [ascii ''TPL_NORMAL_A'', ascii ''TPL_ERR_B'', ascii ''TPL_CORP_C'']"
  by (simp add: example_catalog_def dict_keys_def)

theorem template_list_filter_witness:
  "catalog_well_formed example_catalog
   \<and> (\<exists>r. handle_template_list example_catalog \<lparr>tl_category = Some (ascii ''normal'')\<rparr> = Inr r
        \<and> map ts_template_id (templates r) = [ascii ''TPL_NORMAL_A'', ascii ''TPL_CORP_C''])
   \<and> (\<exists>r. handle_template_list example_catalog \<lparr>tl_category = Some (ascii ''error'')\<rparr> = Inr r
        \<and> map ts_template_id (templates r) = [ascii ''TPL_ERR_B''])
   \<and> (\<exists>r. handle_template_list example_catalog \<lparr>tl_category = Some (ascii ''corp'')\<rparr> = Inr r
        \<and> map ts_template_id (templates r) = [ascii ''TPL_CORP_C''])"
proof -
  have h: "catalog_well_formed example_catalog"
    by (simp add: example_catalog_def catalog_well_formed_def template_well_formed_def
          ascii_eq_iff)
  have sub: "\<not> sublist (ascii ''ERR'') (ascii ''TPL_NORMAL_A'')"
    "sublist (ascii ''ERR'') (ascii ''TPL_ERR_B'')"
    "\<not> sublist (ascii ''ERR'') (ascii ''TPL_CORP_C'')"
    "\<not> sublist (ascii ''CORP'') (ascii ''TPL_NORMAL_A'')"
    "\<not> sublist (ascii ''CORP'') (ascii ''TPL_ERR_B'')"
    "sublist (ascii ''CORP'') (ascii ''TPL_CORP_C'')"
    by (simp_all add: str_contains_iff_sublist [symmetric] ascii_def)
  show ?thesis
    using h sub example_catalog_keys
      template_list_filter [OF h, of "ascii ''normal''"]
      template_list_filter [OF h, of "ascii ''error''"]
      template_list_filter [OF h, of "ascii ''corp''"]
    by (auto simp add: ascii_eq_iff)
qed


section \<open>Assignment\<close>

text \<open>
  The store is called exactly when the request has a non-empty \<open>user_ern\<close> and a
  scenario could be decided.
\<close>

lemma assign_request_Inr_iff:
  "assign_request tpls arguments = Inr (user_ern, scenario) \<longleftrightarrow>
     user_ern = get_or (as_user_ern arguments) [] \<and> user_ern \<noteq> []
     \<and> resolve_scenario tpls arguments = Inr scenario"
  by (auto simp add: assign_request_def Let_def split: sum.splits)

text \<open>A request that is rejected before the store is answered without calling it.\<close>

lemma assign_rejected_before_store:
  "assign_request tpls arguments = Inl reply \<Longrightarrow>
     handle_scenario_assign put tpls arguments = reply"
  by (simp add: handle_scenario_assign_def)

lemma not_in_templates: "t \<notin> set (dict_keys tpls) \<Longrightarrow> map_of tpls t = None"
  by (simp add: dict_keys_def map_of_eq_None_iff)

text \<open>
  C5. Whenever \<open>handle_scenario_assign\<close> hands a key and a scenario representation to
  the store and the store fails, for whatever reason, the reply is the one with
  \<open>success = False\<close>: its error text contains the reason of the store, and it carries
  the key and the whole scenario representation that was to be stored.
\<close>

theorem assign_store_failure:
  assumes "assign_request tpls arguments = Inr (user_ern, scenario)"
    and "put user_ern scenario = PutRaised reason"
  shows "handle_scenario_assign put tpls arguments =
           StoreFailedReply (store_failed_prefix @ reason) user_ern scenario store_failed_note
         \<and> sublist reason (store_failed_prefix @ reason)"
  using assms
  by (simp add: handle_scenario_assign_def store_scenario_def)

theorem assign_store_failure_witness:
  "assign_request []
        \<lparr>as_user_ern = Some (ascii ''X''), as_scenario = Some example_scenario,
         as_template_id = None\<rparr> = Inr (ascii ''X'', example_scenario)
   \<and> unreachable_store (ascii ''X'') example_scenario = PutRaised (ascii ''unreachable'')
   \<and> handle_scenario_assign unreachable_store []
        \<lparr>as_user_ern = Some (ascii ''X''), as_scenario = Some example_scenario,
         as_template_id = None\<rparr>
      = StoreFailedReply (store_failed_prefix @ ascii ''unreachable'') (ascii ''X'')
          example_scenario store_failed_note"
proof -
  let ?args = "\<lparr>as_user_ern = Some (ascii ''X''), as_scenario = Some example_scenario,
                 as_template_id = None\<rparr>"
  have h1: "assign_request [] ?args = Inr (ascii ''X'', example_scenario)"
    by (simp add: assign_request_def resolve_scenario_def get_or_def example_scenario_def
          ascii_def)
  have h2: "unreachable_store (ascii ''X'') example_scenario
              = PutRaised (ascii ''unreachable'')"
    by (simp add: unreachable_store_def)
  show ?thesis
    using assign_store_failure [where put = unreachable_store, OF h1 h2] h1 h2 by simp
qed

text \<open>
  C9, as stated, fails: a call with an empty \<open>user_ern\<close> and neither a scenario nor
  a template id is answered with \<open>"user_ern is required"\<close>, not with the reply for a
  missing scenario input.
\<close>

theorem assign_missing_input_counterexample:
  "handle_scenario_assign accepting_store example_catalog
      \<lparr>as_user_ern = Some [], as_scenario = None, as_template_id = None\<rparr>
     = ErrorReply (ascii ''user_ern is required'')
   \<and> handle_scenario_assign accepting_store example_catalog
      \<lparr>as_user_ern = Some [], as_scenario = None, as_template_id = None\<rparr>
     \<noteq> MissingScenarioInput"
  by (simp add: handle_scenario_assign_def assign_request_def get_or_def
        MissingScenarioInput_def ascii_def)

text \<open>
  C9, amended. For every call with a non-empty \<open>user_ern\<close>: a non-empty inline scenario
  is the one handed to the store, whether or not a template id is given as well; when
  neither a non-empty scenario nor a non-empty template id is given, the reply is the one
  for a missing scenario input; when only a template id is given and the catalog does not
  have it, the reply is the template-not-found one, with the identifiers of the catalog.
\<close>

theorem assign_resolution:
  assumes "get_or (as_user_ern arguments) [] = user_ern" and "user_ern \<noteq> []"
  shows "(\<forall>d. as_scenario arguments = Some d \<and> d \<noteq> [] \<longrightarrow>
            handle_scenario_assign put tpls arguments = store_scenario put user_ern d)
     \<and> (get_or (as_scenario arguments) [] = [] \<and> get_or (as_template_id arguments) [] = [] \<longrightarrow>
            handle_scenario_assign put tpls arguments = MissingScenarioInput)
     \<and> (\<forall>t. get_or (as_scenario arguments) [] = [] \<and> as_template_id arguments = Some t
             \<and> t \<noteq> [] \<and> t \<notin> set (dict_keys tpls) \<longrightarrow>
            handle_scenario_assign put tpls arguments
              = TemplateNotFoundReply (ascii ''Template not found: '' @ t) (dict_keys tpls))"
proof (intro conjI allI impI)
  fix d
  assume "as_scenario arguments = Some d \<and> d \<noteq> []"
  with assms show "handle_scenario_assign put tpls arguments = store_scenario put user_ern d"
    by (simp add: handle_scenario_assign_def assign_request_def resolve_scenario_def
          get_or_def Let_def)
next
  assume "get_or (as_scenario arguments) [] = [] \<and> get_or (as_template_id arguments) [] = []"
  with assms show "handle_scenario_assign put tpls arguments = MissingScenarioInput"
    by (simp add: handle_scenario_assign_def assign_request_def resolve_scenario_def Let_def)
next
  fix t
  assume h: "get_or (as_scenario arguments) [] = [] \<and> as_template_id arguments = Some t
             \<and> t \<noteq> [] \<and> t \<notin> set (dict_keys tpls)"
  then have "map_of tpls t = None" by (simp add: not_in_templates)
  with h assms show "handle_scenario_assign put tpls arguments
              = TemplateNotFoundReply (ascii ''Template not found: '' @ t) (dict_keys tpls)"
    by (simp add: handle_scenario_assign_def assign_request_def resolve_scenario_def Let_def
          TemplateNotFound_def get_or_def)
qed

theorem assign_resolution_witness:
  "get_or (Some (ascii ''X'')) [] = ascii ''X'' \<and> ascii ''X'' \<noteq> []
   \<and> handle_scenario_assign accepting_store example_catalog
        \<lparr>as_user_ern = Some (ascii ''X''), as_scenario = Some example_scenario,
         as_template_id = Some (ascii ''TPL_ERR_B'')\<rparr>
      = store_scenario accepting_store (ascii ''X'') example_scenario
   \<and> handle_scenario_assign accepting_store example_catalog
        \<lparr>as_user_ern = Some (ascii ''X''), as_scenario = None, as_template_id = None\<rparr>
      = MissingScenarioInput
   \<and> handle_scenario_assign accepting_store example_catalog
        \<lparr>as_user_ern = Some (ascii ''X''), as_scenario = None,
         as_template_id = Some (ascii ''TPL_NONE'')\<rparr>
      = TemplateNotFoundReply (ascii ''Template not found: TPL_NONE'')
          [ascii ''TPL_NORMAL_A'', ascii ''TPL_ERR_B'', ascii ''TPL_CORP_C'']"
proof -
  have h1: "get_or (Some (ascii ''X'')) [] = ascii ''X''" by (simp add: get_or_def)
  have h2: "ascii ''X'' \<noteq> []" by (simp add: ascii_def)
  have h3: "ascii ''TPL_NONE'' \<notin> set (dict_keys example_catalog)"
    by (simp add: example_catalog_keys ascii_eq_iff)
  have h4: "ascii ''TPL_NONE'' \<noteq> []" by (simp add: ascii_def)
  have h5: "example_scenario \<noteq> []" by (simp add: example_scenario_def)
  show ?thesis
    using h1 h2 h3 h4 h5 example_catalog_keys
      assign_resolution [of "\<lparr>as_user_ern = Some (ascii ''X''),
         as_scenario = Some example_scenario,
         as_template_id = Some (ascii ''TPL_ERR_B'')\<rparr>" "ascii ''X''"
         accepting_store example_catalog]
      assign_resolution [of "\<lparr>as_user_ern = Some (ascii ''X''), as_scenario = None,
         as_template_id = None\<rparr>" "ascii ''X''" accepting_store example_catalog]
      assign_resolution [of "\<lparr>as_user_ern = Some (ascii ''X''), as_scenario = None,
         as_template_id = Some (ascii ''TPL_NONE'')\<rparr>" "ascii ''X''"
         accepting_store example_catalog]
    by (simp add: get_or_def ascii_def)
qed


end
